theory Spec2Isabelle
  imports Main "HOL-Library.Sublist"
begin

section \<open>The asynchronous TCP client of cpp\_redis (sources/network/tcp\_client.cpp)\<close>

text \<open>
  The class \<open>tcp_client\<close> is embedded as a record of its members and every method as a
  function that takes the state of the whole system and returns the new one, together
  with the exception it throws, if any. The system is the client, the I/O reactor
  (\<open>io_service\<close>) the client talks to, and the ordered log of every call the client makes
  to the outside: system calls, reactor requests and the caller's handlers.

  Atomicity: each method and each completion callback runs as one step. The interleaving
  of threads inside a method, and the mutex that guards the write buffer, are not part of
  the model; \<open>send_locked\<close> is there to state the one interleaving that a claim turns on.
\<close>

subsection \<open>Data\<close>

text \<open>
  \<open>std::vector<char>\<close> is a \<open>char list\<close>. The receive handler is called with the client and
  the received chunk and returns a boolean; the model keeps the chunk and the result, so
  a handler is taken to observe the client without calling back into it. The
  disconnection handler returns nothing: it is identified by a number, and each call of
  it is logged with the client it is given. An empty \<open>std::function\<close> (\<open>nullptr\<close>) is \<open>None\<close>.
\<close>

type_synonym receive_handler_t = "char list \<Rightarrow> bool"
type_synonym disconnection_handler_t = nat

text \<open>
  What a method can throw: \<open>redis_error\<close> with its message, and \<open>std::bad_function_call\<close>
  from calling an empty \<open>std::function\<close>. An iterator range that runs past the end of a
  vector has no defined behaviour in C++; the model makes it a third outcome.
\<close>

datatype exn = redis_error string | bad_function_call | undefined_behaviour

record tcp_client =
  m_fd :: int
  m_is_connected :: bool
  m_receive_handler :: "receive_handler_t option"
  m_disconnection_handler :: "disconnection_handler_t option"
  m_read_buffer :: "char list"
  m_write_buffer :: "char list"

text \<open>
  The calls the client makes to the outside, in the order it makes them. The read request's
  size argument, \<open>READ_SIZE\<close>, is declared in the header, which is not among the sources;
  no property below depends on it and the event leaves it out.
\<close>

datatype event =
    OsSocket int
  | OsClose int
  | Track int
  | Untrack int
  | AsyncRead int
  | AsyncWrite int "char list" nat
  | ReceiveHandlerCall "char list"
  | DisconnectionHandlerCall disconnection_handler_t tcp_client

text \<open>
  Modelled from the spec: the I/O reactor (\<open>io_service\<close>), whose code is not among the
  sources. The spec gives its contract: \<open>track\<close> registers a descriptor with a failure
  callback, \<open>untrack\<close> deregisters it, after which operations already issued for it become
  no-ops, and \<open>asyncRead\<close> and \<open>asyncWrite\<close> are one-shot requests answered by one completion
  callback. The record holds the registered descriptors, the requests not yet answered,
  and the bytes the reactor has written to the socket and acknowledged.
\<close>

record io_service =
  tracked :: "int set"
  reads :: "int list"
  writes :: "(int \<times> char list) list"
  written :: "char list"

record system =
  client :: tcp_client
  reactor :: io_service
  trace :: "event list"

text \<open>The results the operating system gives to the three calls made by \<open>connect\<close>.\<close>

record os_env =
  socket_ret :: int
  gethostbyname_found :: bool
  connect_ret :: int

subsection \<open>The reactor's operations\<close>

text \<open>Modelled from the spec: \<open>track\<close>, \<open>untrack\<close>, \<open>asyncRead\<close> and \<open>asyncWrite\<close> of the reactor.
  A request for a descriptor that is not registered is dropped.\<close>

definition io_track :: "int \<Rightarrow> io_service \<Rightarrow> io_service" where
  "io_track fd r = r\<lparr>tracked := insert fd (tracked r)\<rparr>"

definition io_untrack :: "int \<Rightarrow> io_service \<Rightarrow> io_service" where
  "io_untrack fd r =
     r\<lparr>tracked := tracked r - {fd},
       reads := filter (\<lambda>d. d \<noteq> fd) (reads r),
       writes := filter (\<lambda>w. fst w \<noteq> fd) (writes r)\<rparr>"

definition io_async_read :: "int \<Rightarrow> io_service \<Rightarrow> io_service" where
  "io_async_read fd r = (if fd \<in> tracked r then r\<lparr>reads := reads r @ [fd]\<rparr> else r)"

definition io_async_write :: "int \<Rightarrow> char list \<Rightarrow> nat \<Rightarrow> io_service \<Rightarrow> io_service" where
  "io_async_write fd buf n r =
     (if fd \<in> tracked r then r\<lparr>writes := writes r @ [(fd, take n buf)]\<rparr> else r)"

subsection \<open>The client's methods\<close>

definition emit :: "event \<Rightarrow> system \<Rightarrow> system" where
  "emit e s = s\<lparr>trace := trace s @ [e]\<rparr>"

text \<open>The constructor: no descriptor, not connected, no handlers, empty buffers.\<close>

definition new_client :: tcp_client where
  "new_client =
     \<lparr>m_fd = -1, m_is_connected = False, m_receive_handler = None,
      m_disconnection_handler = None, m_read_buffer = [], m_write_buffer = []\<rparr>"

definition initial :: system where
  "initial =
     \<lparr>client = new_client,
      reactor = \<lparr>tracked = {}, reads = [], writes = [], written = []\<rparr>,
      trace = []\<rparr>"

definition is_connected :: "system \<Rightarrow> bool" where
  "is_connected s = m_is_connected (client s)"

definition clear_buffer :: "system \<Rightarrow> system" where
  "clear_buffer s = s\<lparr>client := (client s)\<lparr>m_write_buffer := [], m_read_buffer := []\<rparr>\<rparr>"

definition reset_state :: "system \<Rightarrow> system" where
  "reset_state s =
     (let s1 = s\<lparr>client := (client s)\<lparr>m_is_connected := False\<rparr>\<rparr>;
          s2 = (if m_fd (client s1) \<noteq> -1
                then (emit (OsClose (m_fd (client s1))) s1)
                       \<lparr>client := (client s1)\<lparr>m_fd := -1\<rparr>\<rparr>
                else s1)
      in clear_buffer s2)"

definition disconnect :: "system \<Rightarrow> system" where
  "disconnect s =
     (if \<not> m_is_connected (client s) then s
      else reset_state
             ((emit (Untrack (m_fd (client s))) s)
                \<lparr>reactor := io_untrack (m_fd (client s)) (reactor s)\<rparr>))"

definition async_read :: "system \<Rightarrow> system" where
  "async_read s =
     (emit (AsyncRead (m_fd (client s))) s)
       \<lparr>reactor := io_async_read (m_fd (client s)) (reactor s)\<rparr>"

text \<open>
  The completion callback of \<open>async_read\<close>. In the source the test \<open>if (m_receive_handler)\<close>
  has no braces: it governs the logging statement that follows it and nothing else, so the
  handler is called on every completion, registered or not.
\<close>

definition async_read_callback :: "nat \<Rightarrow> system \<Rightarrow> exn option \<times> system" where
  "async_read_callback len s =
     (if length (m_read_buffer (client s)) < len then (Some undefined_behaviour, s)
      else
        (case m_receive_handler (client s) of
           None \<Rightarrow> (Some bad_function_call, s)
         | Some h \<Rightarrow>
             (let chunk = take len (m_read_buffer (client s));
                  s1 = emit (ReceiveHandlerCall chunk) s
              in if \<not> h chunk then (None, disconnect s1)
                 else
                   (let s2 = s1\<lparr>client := (client s1)\<lparr>m_read_buffer := []\<rparr>\<rparr>
                    in (None, if m_is_connected (client s2) then async_read s2 else s2)))))"

definition async_write :: "system \<Rightarrow> system" where
  "async_write s =
     (let fd = m_fd (client s); buf = m_write_buffer (client s)
      in (emit (AsyncWrite fd buf (length buf)) s)
           \<lparr>reactor := io_async_write fd buf (length buf) (reactor s)\<rparr>)"

definition async_write_callback :: "nat \<Rightarrow> system \<Rightarrow> exn option \<times> system" where
  "async_write_callback len s =
     (if length (m_write_buffer (client s)) < len then (Some undefined_behaviour, s)
      else
        (let s1 = s\<lparr>client := (client s)
                      \<lparr>m_write_buffer := drop len (m_write_buffer (client s))\<rparr>\<rparr>
         in (None, if m_is_connected (client s1) \<and> m_write_buffer (client s1) \<noteq> []
                   then async_write s1 else s1)))"

definition send :: "char list \<Rightarrow> system \<Rightarrow> exn option \<times> system" where
  "send buffer s =
     (if \<not> m_is_connected (client s) then (Some (redis_error ''Not connected''), s)
      else if buffer = [] then (None, s)
      else
        (let bytes_in_buffer = (0 < length (m_write_buffer (client s)));
             s1 = s\<lparr>client := (client s)
                      \<lparr>m_write_buffer := m_write_buffer (client s) @ buffer\<rparr>\<rparr>
         in if bytes_in_buffer then (None, s1) else (None, async_write s1)))"

text \<open>
  The part of \<open>send\<close> that runs under the lock on the write buffer (lines 119 to 133), on
  its own. The two tests before it read \<open>m_is_connected\<close> and the payload outside the lock,
  so another thread's \<open>disconnect\<close> can run between them and this part.
\<close>

definition send_locked :: "char list \<Rightarrow> system \<Rightarrow> system" where
  "send_locked buffer s =
     (let bytes_in_buffer = (0 < length (m_write_buffer (client s)));
          s1 = s\<lparr>client := (client s)
                   \<lparr>m_write_buffer := m_write_buffer (client s) @ buffer\<rparr>\<rparr>
      in if bytes_in_buffer then s1 else async_write s1)"

text \<open>\<open>std::to_string\<close> on an unsigned number: its decimal digits.\<close>

fun to_string :: "nat \<Rightarrow> string" where
  "to_string n =
     (if n < 10 then [char_of (48 + n)]
      else to_string (n div 10) @ [char_of (48 + n mod 10)])"

definition connect ::
  "os_env \<Rightarrow> string \<Rightarrow> nat \<Rightarrow> disconnection_handler_t option \<Rightarrow> receive_handler_t option
     \<Rightarrow> system \<Rightarrow> exn option \<times> system" where
  "connect os host port disconnection_handler receive_handler s =
     (if m_is_connected (client s)
      then (Some (redis_error ''Client already connected''), s)
      else
        (let s1 = (emit (OsSocket (socket_ret os)) s)
                    \<lparr>client := (client s)\<lparr>m_fd := socket_ret os\<rparr>\<rparr>
         in if m_fd (client s1) < 0
            then (Some (redis_error ''Can't open a socket''), s1)
            else if \<not> gethostbyname_found os
            then (Some (redis_error (''No such host: '' @ host)), s1)
            else if connect_ret os < 0
            then (Some (redis_error
                    (''Fail to connect to '' @ host @ '':'' @ to_string port)), s1)
            else
              (let s2 = s1\<lparr>client := (client s1)
                             \<lparr>m_disconnection_handler := disconnection_handler,
                              m_receive_handler := receive_handler\<rparr>\<rparr>;
                   s3 = (emit (Track (m_fd (client s2))) s2)
                          \<lparr>reactor := io_track (m_fd (client s2)) (reactor s2)\<rparr>;
                   s4 = s3\<lparr>client := (client s3)\<lparr>m_is_connected := True\<rparr>\<rparr>
               in (None, async_read s4))))"

definition io_service_disconnection_handler :: "system \<Rightarrow> system" where
  "io_service_disconnection_handler s =
     (let s1 = reset_state s
      in case m_disconnection_handler (client s1) of
           None \<Rightarrow> s1
         | Some h \<Rightarrow> emit (DisconnectionHandlerCall h (client s1)) s1)"

subsection \<open>What can happen to the system\<close>

text \<open>
  The caller calls \<open>connect\<close>, \<open>disconnect\<close> and \<open>send\<close>; the reactor answers a pending read,
  answers a pending write, or reports that a registered descriptor has failed. The
  \<open>std::string\<close> overload of \<open>send\<close> copies its argument into a vector and calls the other,
  and the destructor calls \<open>disconnect\<close>: both are covered by the steps below.
\<close>

datatype call =
    Connect os_env string nat "disconnection_handler_t option" "receive_handler_t option"
  | Disconnect
  | Send "char list"
  | ReadCompletion int "char list" nat
  | WriteCompletion int nat
  | Failure int

text \<open>
  Modelled from the spec: the three steps of the reactor, whose code is not among the
  sources. A read completion takes the request off the reactor, leaves the bytes read in
  the client's read buffer (which the request holds by reference) and calls the callback
  with a length within that buffer. A write completion takes the oldest request for the
  descriptor off the reactor, writes the first \<open>n\<close> of the bytes submitted to the socket,
  and calls the callback with \<open>n\<close>. A failure of a registered descriptor calls the failure
  callback bound to the client, and that is all: the spec gives deregistration to
  \<open>untrack\<close> alone and says that operations in flight are not cancelled, and the source's
  failure callback calls no \<open>untrack\<close>. So the descriptor stays registered, and a request
  that was in flight when it failed stays outstanding and can still be answered. A step
  the reactor has nothing pending for cannot happen: \<open>fire\<close> is \<open>None\<close> there. The caller's
  steps are the methods themselves.
\<close>

definition pending_write :: "io_service \<Rightarrow> int \<Rightarrow> char list option" where
  "pending_write r fd = map_of (writes r) fd"

fun fire :: "call \<Rightarrow> system \<Rightarrow> (exn option \<times> system) option" where
  "fire (Connect os host port dh rh) s = Some (connect os host port dh rh s)"
| "fire Disconnect s = Some (None, disconnect s)"
| "fire (Send buffer) s = Some (send buffer s)"
| "fire (ReadCompletion fd buf len) s =
     (if fd \<in> set (reads (reactor s)) \<and> len \<le> length buf
      then Some (async_read_callback len
                   (s\<lparr>reactor := (reactor s)\<lparr>reads := remove1 fd (reads (reactor s))\<rparr>,
                      client := (client s)\<lparr>m_read_buffer := buf\<rparr>\<rparr>))
      else None)"
| "fire (WriteCompletion fd n) s =
     (case pending_write (reactor s) fd of
        None \<Rightarrow> None
      | Some p \<Rightarrow>
          if n \<le> length p
          then Some (async_write_callback n
                       (s\<lparr>reactor := (reactor s)
                                      \<lparr>writes := remove1 (fd, p) (writes (reactor s)),
                                       written := written (reactor s) @ take n p\<rparr>\<rparr>))
          else None)"
| "fire (Failure fd) s =
     (if fd \<in> tracked (reactor s)
      then Some (None, io_service_disconnection_handler s)
      else None)"

fun run :: "call list \<Rightarrow> system \<Rightarrow> system option" where
  "run [] s = Some s"
| "run (c # cs) s = (case fire c s of None \<Rightarrow> None | Some (e, s') \<Rightarrow> run cs s')"

inductive reachable :: "system \<Rightarrow> bool" where
  init: "reachable initial"
| step: "reachable s \<Longrightarrow> fire c s = Some (e, s') \<Longrightarrow> reachable s'"

text \<open>
  The systems reached without the reactor reporting a failure while a drain is in
  flight: every step is allowed, but a failure only when no write request is outstanding.
\<close>

fun reactor_failure :: "call \<Rightarrow> bool" where
  "reactor_failure (Failure fd) = True"
| "reactor_failure c = False"

inductive undisturbed :: "system \<Rightarrow> bool" where
  init: "undisturbed initial"
| step: "undisturbed s \<Longrightarrow> fire c s = Some (e, s') \<Longrightarrow>
         (reactor_failure c \<longrightarrow> writes (reactor s) = []) \<Longrightarrow> undisturbed s'"

subsection \<open>Concrete systems and auxiliary notions\<close>

text \<open>An operating system on which every call of \<open>connect\<close> succeeds with descriptor 3,
  one that cannot resolve the host, and a receive handler that vetoes the chunk \<open>QUIT\<close>.\<close>

definition os_ok :: os_env where
  "os_ok = \<lparr>socket_ret = 3, gethostbyname_found = True, connect_ret = 0\<rparr>"

definition os_no_host :: os_env where
  "os_no_host = \<lparr>socket_ret = 3, gethostbyname_found = False, connect_ret = 0\<rparr>"

definition until_quit :: receive_handler_t where
  "until_quit chunk = (chunk \<noteq> ''QUIT'')"

definition connected_example :: system where
  "connected_example = snd (connect os_ok ''localhost'' 6379 (Some 7) (Some until_quit) initial)"

definition no_handler_example :: system where
  "no_handler_example = snd (connect os_ok ''localhost'' 6379 None None initial)"



text \<open>The bytes of each write request the client has made to the reactor, in order, and
  their concatenation.\<close>

fun submissions :: "event list \<Rightarrow> char list list" where
  "submissions [] = []"
| "submissions (AsyncWrite fd buf n # es) = take n buf # submissions es"
| "submissions (e # es) = submissions es"

definition submitted :: "system \<Rightarrow> char list" where
  "submitted s = concat (submissions (trace s))"

text \<open>The bytes the reactor has written to the socket and acknowledged to the client.\<close>

definition acknowledged :: "system \<Rightarrow> char list" where
  "acknowledged s = written (reactor s)"




text \<open>The number of drains outstanding: the write requests the reactor has not answered.\<close>

definition outstanding_drains :: "system \<Rightarrow> nat" where
  "outstanding_drains s = length (writes (reactor s))"






text \<open>The connected example after \<open>send("PING")\<close>: four bytes queued and one write request
  pending. The same system after \<open>disconnect\<close>, and after a read completion whose chunk
  \<open>QUIT\<close> the receive handler vetoes. The example after \<open>short_write_run\<close> below.\<close>

definition sending_example :: system where
  "sending_example = snd (send ''PING'' connected_example)"

definition disconnected_example :: system where
  "disconnected_example =
     \<lparr>client = \<lparr>m_fd = -1, m_is_connected = False, m_receive_handler = Some until_quit,
                m_disconnection_handler = Some 7, m_read_buffer = [], m_write_buffer = []\<rparr>,
      reactor = \<lparr>tracked = {}, reads = [], writes = [], written = []\<rparr>,
      trace = [OsSocket 3, Track 3, AsyncRead 3, AsyncWrite 3 ''PING'' 4, Untrack 3,
               OsClose 3]\<rparr>"







text \<open>
  The sending example after the reactor has reported the failure of descriptor 3. A
  send that has passed its two tests on the connected example, is overtaken by a whole
  \<open>disconnect\<close>, then runs its locked part, and is followed by a successful connect. The
  steps by which a chunk arrives late: the reactor reports a failure, then answers the
  read that was in flight; and the connected example after them.
\<close>

definition failed_example :: system where
  "failed_example = io_service_disconnection_handler sending_example"

definition raced_example :: system where
  "raced_example =
     snd (connect os_ok ''localhost'' 6379 (Some 7) (Some until_quit)
            (send_locked ''PING'' (disconnect connected_example)))"




text \<open>
  What holds of every reachable system: a connected client holds a descriptor and it is
  registered, and a disconnected client has an empty write buffer.
\<close>

definition client_ok :: "system \<Rightarrow> bool" where
  "client_ok s =
     ((m_is_connected (client s) \<longrightarrow>
         0 \<le> m_fd (client s) \<and> m_fd (client s) \<in> tracked (reactor s)) \<and>
      (\<not> m_is_connected (client s) \<longrightarrow> m_write_buffer (client s) = []))"

text \<open>
  What holds as long as no failure is reported while a drain is in flight: moreover the
  write requests outstanding are none when the write buffer is empty, and otherwise one,
  for the client's descriptor, whose bytes are a prefix of the write buffer.
\<close>

definition drain_inv :: "system \<Rightarrow> bool" where
  "drain_inv s =
     ((m_is_connected (client s) \<longrightarrow> m_fd (client s) \<in> tracked (reactor s)) \<and>
      (\<not> m_is_connected (client s) \<longrightarrow> m_write_buffer (client s) = []) \<and>
      (m_write_buffer (client s) = [] \<longrightarrow> writes (reactor s) = []) \<and>
      (m_write_buffer (client s) \<noteq> [] \<longrightarrow>
         (\<exists>p. writes (reactor s) = [(m_fd (client s), p)] \<and>
              prefix p (m_write_buffer (client s)))))"

subsection \<open>Unfolding the methods\<close>

lemmas method_defs =
  connect_def disconnect_def send_def send_locked_def async_read_def async_write_def
  async_read_callback_def async_write_callback_def reset_state_def clear_buffer_def
  io_service_disconnection_handler_def emit_def io_track_def io_untrack_def
  io_async_read_def io_async_write_def pending_write_def

lemmas eval_defs = method_defs submitted_def acknowledged_def Let_def

lemma client_emit: "client (emit ev s) = client s"
  by (simp add: emit_def)

lemma reactor_emit: "reactor (emit ev s) = reactor s"
  by (simp add: emit_def)

lemma fire_WriteCompletionE:
  assumes "fire (WriteCompletion fd n) s = Some (e, s')"
  obtains p where "pending_write (reactor s) fd = Some p" "n \<le> length p"
    "async_write_callback n
       (s\<lparr>reactor := (reactor s)\<lparr>writes := remove1 (fd, p) (writes (reactor s)),
                                  written := written (reactor s) @ take n p\<rparr>\<rparr>) = (e, s')"
  using assms by (auto split: option.splits if_splits)

lemma fire_ReadCompletionE:
  assumes "fire (ReadCompletion fd buf len) s = Some (e, s')"
  obtains "fd \<in> set (reads (reactor s))" "len \<le> length buf"
    "async_read_callback len
       (s\<lparr>reactor := (reactor s)\<lparr>reads := remove1 fd (reads (reactor s))\<rparr>,
          client := (client s)\<lparr>m_read_buffer := buf\<rparr>\<rparr>) = (e, s')"
  using assms by (auto split: if_splits)

subsection \<open>What holds of every reachable system\<close>

lemma client_ok_initial: "client_ok initial"
  by (simp add: client_ok_def initial_def new_client_def)

lemma client_ok_emit: "client_ok (emit ev s) = client_ok s"
  by (simp add: client_ok_def emit_def)

lemma client_ok_connect: "client_ok s \<Longrightarrow> client_ok (snd (connect os host port dh rh s))"
  by (auto simp: client_ok_def connect_def emit_def async_read_def io_track_def
        io_async_read_def Let_def)

lemma client_ok_reset: "client_ok (reset_state s)"
  by (simp add: client_ok_def reset_state_def clear_buffer_def emit_def Let_def)

lemma client_ok_disconnect: "client_ok s \<Longrightarrow> client_ok (disconnect s)"
  by (simp add: disconnect_def client_ok_reset)

lemma client_ok_send: "client_ok s \<Longrightarrow> client_ok (snd (send buffer s))"
  by (auto simp: client_ok_def send_def async_write_def emit_def io_async_write_def Let_def)

lemma client_ok_failure: "client_ok (io_service_disconnection_handler s)"
  by (simp add: io_service_disconnection_handler_def Let_def client_ok_reset client_ok_emit
        split: option.splits)

lemma client_ok_read_again:
  "client_ok s \<Longrightarrow>
     client_ok (async_read ((emit ev s)\<lparr>client := (client s)\<lparr>m_read_buffer := []\<rparr>\<rparr>))"
  by (auto simp: client_ok_def emit_def async_read_def io_async_read_def)

lemma client_ok_read_clear:
  "client_ok s \<Longrightarrow> client_ok ((emit ev s)\<lparr>client := (client s)\<lparr>m_read_buffer := []\<rparr>\<rparr>)"
  by (auto simp: client_ok_def emit_def)

lemma client_ok_read_callback:
  "client_ok s \<Longrightarrow> client_ok (snd (async_read_callback len s))"
  by (auto simp: async_read_callback_def Let_def client_ok_disconnect client_ok_emit
        client_emit client_ok_read_again client_ok_read_clear split: option.splits)

lemma client_ok_write_callback:
  "client_ok s \<Longrightarrow> client_ok (snd (async_write_callback len s))"
  by (auto simp: client_ok_def async_write_callback_def async_write_def emit_def
        io_async_write_def Let_def)

lemma client_ok_fire: "client_ok s \<Longrightarrow> fire c s = Some (e, s') \<Longrightarrow> client_ok s'"
proof (cases c)
  case (Connect os host port dh rh)
  assume "client_ok s" "fire c s = Some (e, s')"
  then show ?thesis using client_ok_connect[of s os host port dh rh] Connect by auto
next
  case Disconnect
  assume "client_ok s" "fire c s = Some (e, s')"
  then show ?thesis using client_ok_disconnect[of s] Disconnect by auto
next
  case (Send b)
  assume "client_ok s" "fire c s = Some (e, s')"
  then show ?thesis using client_ok_send[of s b] Send by auto
next
  case (ReadCompletion fd buf len)
  assume a: "client_ok s" "fire c s = Some (e, s')"
  define t where "t = s\<lparr>reactor := (reactor s)\<lparr>reads := remove1 fd (reads (reactor s))\<rparr>,
                      client := (client s)\<lparr>m_read_buffer := buf\<rparr>\<rparr>"
  from a(1) have "client_ok t" by (auto simp: client_ok_def t_def)
  from client_ok_read_callback[OF this, of len] a(2) ReadCompletion
  show ?thesis by (auto simp: t_def split: if_splits)
next
  case (WriteCompletion fd n)
  assume a: "client_ok s" "fire c s = Some (e, s')"
  from a(2) have "fire (WriteCompletion fd n) s = Some (e, s')"
    by (simp only: WriteCompletion)
  then obtain p where "pending_write (reactor s) fd = Some p" "n \<le> length p"
    "async_write_callback n
       (s\<lparr>reactor := (reactor s)\<lparr>writes := remove1 (fd, p) (writes (reactor s)),
                                  written := written (reactor s) @ take n p\<rparr>\<rparr>) = (e, s')"
    by (rule fire_WriteCompletionE)
  then have s': "s' = snd (async_write_callback n
                       (s\<lparr>reactor := (reactor s)
                                      \<lparr>writes := remove1 (fd, p) (writes (reactor s)),
                                       written := written (reactor s) @ take n p\<rparr>\<rparr>))"
    by simp
  from a(1) have "client_ok (s\<lparr>reactor := (reactor s)
                                      \<lparr>writes := remove1 (fd, p) (writes (reactor s)),
                                       written := written (reactor s) @ take n p\<rparr>\<rparr>)"
    by (auto simp: client_ok_def)
  from client_ok_write_callback[OF this, of n] show ?thesis by (simp add: s')
next
  case (Failure fd)
  assume "client_ok s" "fire c s = Some (e, s')"
  then show ?thesis using client_ok_failure[of s] Failure by (auto split: if_splits)
qed

lemma reachable_client_ok: "reachable s \<Longrightarrow> client_ok s"
  by (induction rule: reachable.induct) (auto intro: client_ok_initial client_ok_fire)

lemma reachable_run: "reachable s \<Longrightarrow> run cs s = Some s' \<Longrightarrow> reachable s'"
  by (induction cs arbitrary: s) (auto split: option.splits intro: reachable.step)

subsection \<open>What holds while no failure is reported with a drain in flight\<close>

lemma drain_inv_initial: "drain_inv initial"
  by (simp add: drain_inv_def initial_def new_client_def)

lemma drain_inv_emit: "drain_inv (emit ev s) = drain_inv s"
  by (simp add: drain_inv_def emit_def)

lemma drain_inv_connect: "drain_inv s \<Longrightarrow> drain_inv (snd (connect os host port dh rh s))"
  by (auto simp: drain_inv_def connect_def emit_def async_read_def io_track_def
        io_async_read_def Let_def)

lemma drain_inv_disconnect: "drain_inv s \<Longrightarrow> drain_inv (disconnect s)"
  by (cases "m_write_buffer (client s) = []")
     (auto simp: drain_inv_def disconnect_def reset_state_def clear_buffer_def emit_def
        io_untrack_def Let_def)

lemma drain_inv_send: "drain_inv s \<Longrightarrow> drain_inv (snd (send buffer s))"
  by (auto simp: drain_inv_def send_def async_write_def emit_def io_async_write_def Let_def)

lemma drain_inv_failure:
  "drain_inv s \<Longrightarrow> writes (reactor s) = [] \<Longrightarrow> drain_inv (io_service_disconnection_handler s)"
  by (auto simp: drain_inv_def io_service_disconnection_handler_def reset_state_def
        clear_buffer_def emit_def Let_def split: option.splits)

lemma drain_inv_read_again:
  "drain_inv s \<Longrightarrow>
     drain_inv (async_read ((emit ev s)\<lparr>client := (client s)\<lparr>m_read_buffer := []\<rparr>\<rparr>))"
  by (auto simp: drain_inv_def emit_def async_read_def io_async_read_def)

lemma drain_inv_read_clear:
  "drain_inv s \<Longrightarrow> drain_inv ((emit ev s)\<lparr>client := (client s)\<lparr>m_read_buffer := []\<rparr>\<rparr>)"
  by (auto simp: drain_inv_def emit_def)

lemma drain_inv_read_callback:
  "drain_inv s \<Longrightarrow> drain_inv (snd (async_read_callback len s))"
  by (auto simp: async_read_callback_def Let_def drain_inv_disconnect drain_inv_emit
        client_emit drain_inv_read_again drain_inv_read_clear split: option.splits)

text \<open>A write completion under the invariant: it answers the one request in flight, which
  is for the client's descriptor, on a connected client.\<close>

lemma write_completion_pending:
  assumes "drain_inv s" "pending_write (reactor s) fd = Some p"
  shows "m_is_connected (client s)" "fd = m_fd (client s)"
    "writes (reactor s) = [(m_fd (client s), p)]" "prefix p (m_write_buffer (client s))"
proof -
  from assms(2) have ne: "writes (reactor s) \<noteq> []" by (auto simp: pending_write_def)
  with assms(1) have wb: "m_write_buffer (client s) \<noteq> []" by (auto simp: drain_inv_def)
  with assms(1) obtain p' where w: "writes (reactor s) = [(m_fd (client s), p')]"
    and pre: "prefix p' (m_write_buffer (client s))" by (auto simp: drain_inv_def)
  from assms(2) w have fd: "fd = m_fd (client s)" and p: "p' = p"
    by (auto simp: pending_write_def split: if_splits)
  from wb assms(1) show "m_is_connected (client s)" by (auto simp: drain_inv_def)
  from fd show "fd = m_fd (client s)" .
  from w p show "writes (reactor s) = [(m_fd (client s), p)]" by simp
  from pre p show "prefix p (m_write_buffer (client s))" by simp
qed

lemma drain_inv_write_completion:
  assumes "drain_inv s" "pending_write (reactor s) fd = Some p" "n \<le> length p"
  shows "drain_inv (snd (async_write_callback n
                       (s\<lparr>reactor := (reactor s)
                                      \<lparr>writes := remove1 (fd, p) (writes (reactor s)),
                                       written := written (reactor s) @ take n p\<rparr>\<rparr>)))"
proof -
  note f = write_completion_pending[OF assms(1,2)]
  from f(4) assms(3) have len: "n \<le> length (m_write_buffer (client s))"
    by (auto dest: prefix_length_le)
  show ?thesis
    using assms(1) f(1,2,3) len
    by (auto simp: drain_inv_def async_write_callback_def async_write_def emit_def
          io_async_write_def Let_def)
qed

lemma drain_inv_fire:
  assumes "drain_inv s" "fire c s = Some (e, s')"
    "reactor_failure c \<longrightarrow> writes (reactor s) = []"
  shows "drain_inv s'"
proof (cases c)
  case (Connect os host port dh rh)
  with assms show ?thesis using drain_inv_connect[of s os host port dh rh] by auto
next
  case Disconnect
  with assms show ?thesis using drain_inv_disconnect[of s] by auto
next
  case (Send b)
  with assms show ?thesis using drain_inv_send[of s b] by auto
next
  case (ReadCompletion fd buf len)
  define t where "t = s\<lparr>reactor := (reactor s)\<lparr>reads := remove1 fd (reads (reactor s))\<rparr>,
                      client := (client s)\<lparr>m_read_buffer := buf\<rparr>\<rparr>"
  from assms(1) have "drain_inv t" by (auto simp: drain_inv_def t_def)
  from drain_inv_read_callback[OF this, of len] assms(2) ReadCompletion
  show ?thesis by (auto simp: t_def split: if_splits)
next
  case (WriteCompletion fd n)
  with assms show ?thesis using drain_inv_write_completion[of s fd _ n]
    by (auto split: if_splits option.splits)
next
  case (Failure fd)
  with assms show ?thesis using drain_inv_failure[of s] by (auto split: if_splits)
qed

lemma undisturbed_drain_inv: "undisturbed s \<Longrightarrow> drain_inv s"
  by (induction rule: undisturbed.induct) (auto intro: drain_inv_initial drain_inv_fire)

lemma undisturbed_reachable: "undisturbed s \<Longrightarrow> reachable s"
  by (induction rule: undisturbed.induct) (auto intro: reachable.init reachable.step)

subsection \<open>Sends and write completions keep the bytes in order\<close>








subsection \<open>A disconnected client stays disconnected until a connect succeeds\<close>








subsection \<open>Evaluating the concrete systems\<close>

lemma connected_example_eq:
  "connected_example =
     \<lparr>client = \<lparr>m_fd = 3, m_is_connected = True, m_receive_handler = Some until_quit,
                m_disconnection_handler = Some 7, m_read_buffer = [], m_write_buffer = []\<rparr>,
      reactor = \<lparr>tracked = {3}, reads = [3], writes = [], written = []\<rparr>,
      trace = [OsSocket 3, Track 3, AsyncRead 3]\<rparr>"
  by (simp add: connected_example_def os_ok_def initial_def new_client_def method_defs Let_def)

lemma no_handler_example_eq:
  "no_handler_example =
     \<lparr>client = \<lparr>m_fd = 3, m_is_connected = True, m_receive_handler = None,
                m_disconnection_handler = None, m_read_buffer = [], m_write_buffer = []\<rparr>,
      reactor = \<lparr>tracked = {3}, reads = [3], writes = [], written = []\<rparr>,
      trace = [OsSocket 3, Track 3, AsyncRead 3]\<rparr>"
  by (simp add: no_handler_example_def os_ok_def initial_def new_client_def method_defs Let_def)

lemma reachable_connected_example: "reachable connected_example"
  by (rule reachable.step
        [OF reachable.init, of "Connect os_ok ''localhost'' 6379 (Some 7) (Some until_quit)" None])
     (simp add: connected_example_def os_ok_def initial_def new_client_def method_defs Let_def)

lemma reachable_no_handler_example: "reachable no_handler_example"
  by (rule reachable.step
        [OF reachable.init, of "Connect os_ok ''localhost'' 6379 None None" None])
     (simp add: no_handler_example_def os_ok_def initial_def new_client_def method_defs Let_def)

lemma sending_example_eq:
  "sending_example =
     \<lparr>client = \<lparr>m_fd = 3, m_is_connected = True, m_receive_handler = Some until_quit,
                m_disconnection_handler = Some 7, m_read_buffer = [], m_write_buffer = ''PING''\<rparr>,
      reactor = \<lparr>tracked = {3}, reads = [3], writes = [(3, ''PING'')], written = []\<rparr>,
      trace = [OsSocket 3, Track 3, AsyncRead 3, AsyncWrite 3 ''PING'' 4]\<rparr>"
  by (simp add: sending_example_def connected_example_eq eval_defs)

lemma reachable_sending_example: "reachable sending_example"
  by (rule reachable.step[OF reachable_connected_example, of "Send ''PING''" None])
     (simp add: sending_example_def connected_example_eq eval_defs)




lemma disconnect_sending_example: "disconnect sending_example = disconnected_example"
  by (simp add: sending_example_eq disconnected_example_def eval_defs)



lemma async_write_submits_queue:
  "trace (async_write s) =
     trace s @ [AsyncWrite (m_fd (client s)) (m_write_buffer (client s))
                  (length (m_write_buffer (client s)))]"
  by (simp add: async_write_def emit_def Let_def)

lemma undisturbed_connected_example: "undisturbed connected_example"
  by (rule undisturbed.step
        [OF undisturbed.init, of "Connect os_ok ''localhost'' 6379 (Some 7) (Some until_quit)" None])
     (simp_all add: connected_example_def os_ok_def initial_def new_client_def method_defs Let_def)

lemma undisturbed_sending_example: "undisturbed sending_example"
  by (rule undisturbed.step[OF undisturbed_connected_example, of "Send ''PING''" None])
     (simp_all add: sending_example_def connected_example_eq eval_defs)


lemma failed_example_eq:
  "failed_example =
     \<lparr>client = \<lparr>m_fd = -1, m_is_connected = False, m_receive_handler = Some until_quit,
                m_disconnection_handler = Some 7, m_read_buffer = [], m_write_buffer = []\<rparr>,
      reactor = \<lparr>tracked = {3}, reads = [3], writes = [(3, ''PING'')], written = []\<rparr>,
      trace = [OsSocket 3, Track 3, AsyncRead 3, AsyncWrite 3 ''PING'' 4, OsClose 3,
               DisconnectionHandlerCall 7
                 \<lparr>m_fd = -1, m_is_connected = False, m_receive_handler = Some until_quit,
                  m_disconnection_handler = Some 7, m_read_buffer = [],
                  m_write_buffer = []\<rparr>]\<rparr>"
  by (simp add: failed_example_def sending_example_eq eval_defs)

lemma fire_failure_example: "fire (Failure 3) sending_example = Some (None, failed_example)"
proof -
  have "3 \<in> tracked (reactor sending_example)" by (simp add: sending_example_eq)
  then show ?thesis by (simp add: failed_example_def)
qed

lemma raced_example_eq:
  "raced_example =
     \<lparr>client = \<lparr>m_fd = 3, m_is_connected = True, m_receive_handler = Some until_quit,
                m_disconnection_handler = Some 7, m_read_buffer = [],
                m_write_buffer = ''PING''\<rparr>,
      reactor = \<lparr>tracked = {3}, reads = [3], writes = [], written = []\<rparr>,
      trace = [OsSocket 3, Track 3, AsyncRead 3, Untrack 3, OsClose 3,
               AsyncWrite (-1) ''PING'' 4, OsSocket 3, Track 3, AsyncRead 3]\<rparr>"
  by (simp add: raced_example_def connected_example_eq os_ok_def eval_defs)


text \<open>\<open>send\<close> is its two tests followed by the part under the lock.\<close>

lemma send_split:
  "send buffer s =
     (if \<not> m_is_connected (client s) then (Some (redis_error ''Not connected''), s)
      else if buffer = [] then (None, s)
      else (None, send_locked buffer s))"
  by (simp add: send_def send_locked_def Let_def)

text \<open>The failure callback leaves the write requests at the reactor as they are.\<close>

lemma failure_keeps_drains:
  "fire (Failure fd) s = Some (e, s') \<Longrightarrow> writes (reactor s') = writes (reactor s)"
  by (auto simp: io_service_disconnection_handler_def reset_state_def clear_buffer_def
        emit_def Let_def split: if_splits option.splits)

section \<open>The claims\<close>

subsection \<open>C9: connect on a connected client\<close>

text \<open>
  C9. Calling \<open>connect\<close> while the client is connected throws the error "Client already
  connected" and changes nothing: the connection state, the descriptor, both handlers,
  both buffers, the requests pending at the reactor and the log of calls made are those
  of before.
\<close>

theorem connect_while_connected:
  "m_is_connected (client s) \<Longrightarrow>
     connect os host port dh rh s = (Some (redis_error ''Client already connected''), s)"
  by (simp add: connect_def)

theorem connect_while_connected_witness:
  "m_is_connected (client connected_example) \<and>
   connect os_no_host ''elsewhere'' 80 None None connected_example =
     (Some (redis_error ''Client already connected''), connected_example)"
  using connect_while_connected [of connected_example os_no_host "''elsewhere''" 80 None None]
  by (simp add: connected_example_eq)

subsection \<open>C10: send with an empty payload\<close>

text \<open>
  C10. \<open>send\<close> tests the connection before it tests the payload: with an empty payload it
  throws "Not connected" on a disconnected client, and on a connected client it returns
  without changing anything, so the queue is as before and no write request is made.
\<close>

theorem send_empty_checks_connection_first:
  "send [] s =
     (if m_is_connected (client s) then (None, s) else (Some (redis_error ''Not connected''), s))"
  by (simp add: send_def)

theorem send_empty_checks_connection_first_witness:
  "send [] initial = (Some (redis_error ''Not connected''), initial) \<and>
   send [] connected_example = (None, connected_example)"
  using send_empty_checks_connection_first [of initial]
    send_empty_checks_connection_first [of connected_example]
  by (simp add: connected_example_eq initial_def new_client_def)

subsection \<open>C3: a read completion with no receive handler\<close>

text \<open>
  C3. The claim is that the receive handler is called only if one is registered, and that
  without one the callback clears the read buffer and asks for the next read. The source
  calls the handler whether or not one is registered. On a client connected with no
  receive handler, the completion of a read of the four bytes \<open>PONG\<close> throws
  \<open>std::bad_function_call\<close>: the read buffer still holds the bytes, no read is pending
  and no further read has been requested.
\<close>

theorem read_completion_without_handler_throws:
  "fire (ReadCompletion 3 ''PONG'' 4) no_handler_example =
     Some (Some bad_function_call,
           no_handler_example
             \<lparr>reactor := (reactor no_handler_example)\<lparr>reads := []\<rparr>,
              client := (client no_handler_example)\<lparr>m_read_buffer := ''PONG''\<rparr>\<rparr>)"
  by (simp add: no_handler_example_eq async_read_callback_def)

subsection \<open>C4: a failed connect\<close>

text \<open>
  C4. The claim is that a failed \<open>connect\<close> leaves the client disconnected and releases
  the descriptor it created, the stored handle being -1 again. On a new client, when the
  socket is created as descriptor 3 and the host does not resolve, \<open>connect\<close> throws "No
  such host" and the client stays disconnected with its handlers untouched and no read
  requested, but the stored handle is 3 and the descriptor has not been closed.
\<close>

theorem connect_failure_leaves_descriptor_open:
  "connect os_no_host ''nohost'' 6379 (Some 7) (Some until_quit) initial =
     (Some (redis_error ''No such host: nohost''),
      initial\<lparr>client := new_client\<lparr>m_fd := 3\<rparr>, trace := [OsSocket 3]\<rparr>)"
  by (simp add: connect_def initial_def new_client_def emit_def os_no_host_def)

subsection \<open>C5: the handlers after a disconnect\<close>

text \<open>
  C5, as stated: after a full disconnect both handlers stored in the client are cleared.
  They are not: after \<open>disconnect\<close>, and after the reactor's failure callback, the client
  of the example still holds the receive handler and the disconnection handler it was
  connected with.
\<close>

theorem handlers_cleared_counterexample:
  "m_receive_handler (client (disconnect connected_example)) = Some until_quit \<and>
   m_disconnection_handler (client (disconnect connected_example)) = Some 7 \<and>
   m_receive_handler (client (io_service_disconnection_handler connected_example))
     = Some until_quit \<and>
   m_disconnection_handler (client (io_service_disconnection_handler connected_example))
     = Some 7"
  by (simp add: connected_example_eq method_defs Let_def)

text \<open>
  C5, amended: a full disconnect, by \<open>disconnect\<close> or by the reactor's failure callback,
  leaves both handlers stored in the client as they were.
\<close>

theorem disconnect_keeps_handlers:
  "m_receive_handler (client (disconnect s)) = m_receive_handler (client s) \<and>
   m_disconnection_handler (client (disconnect s)) = m_disconnection_handler (client s) \<and>
   m_receive_handler (client (io_service_disconnection_handler s))
     = m_receive_handler (client s) \<and>
   m_disconnection_handler (client (io_service_disconnection_handler s))
     = m_disconnection_handler (client s)"
  by (simp add: method_defs Let_def split: option.splits)

subsection \<open>C1: the order of the bytes written\<close>




subsection \<open>C2: one drain outstanding\<close>

text \<open>
  C2, as stated: in every state reachable by any interleaving of connects, sends,
  disconnects, write completions and reactor disconnection callbacks, exactly one drain
  is outstanding when the queue is non-empty and the client connected, and none
  otherwise. Two ways it fails. The reactor's disconnection callback resets the client
  and calls no \<open>untrack\<close>: after it the sending example is disconnected and its drain is
  still outstanding. And \<open>send\<close> tests the connection outside the lock: a send overtaken
  by a \<open>disconnect\<close> between its tests and its locked part queues its bytes on the
  disconnected client, where the write request is dropped, and after the next connect the
  client is connected with a non-empty queue and no drain outstanding.
\<close>

theorem drains_outstanding_counterexample:
  "fire (Failure 3) sending_example = Some (None, failed_example) \<and>
   \<not> is_connected failed_example \<and> outstanding_drains failed_example = 1 \<and>
   is_connected raced_example \<and> m_write_buffer (client raced_example) = ''PING'' \<and>
   outstanding_drains raced_example = 0"
proof -
  have a: "\<not> is_connected failed_example \<and> outstanding_drains failed_example = 1"
    by (simp add: failed_example_eq is_connected_def outstanding_drains_def)
  have b: "is_connected raced_example \<and> m_write_buffer (client raced_example) = ''PING'' \<and>
           outstanding_drains raced_example = 0"
    by (simp add: raced_example_eq is_connected_def outstanding_drains_def)
  from fire_failure_example a b show ?thesis by simp
qed

text \<open>
  C2, amended: in every state reached by connects, sends, disconnects, read and write
  completions and reactor disconnection callbacks, each run as a whole before the next
  begins, and no disconnection callback run while a drain is in flight, exactly one drain
  is outstanding when the queue is non-empty and the client is connected, and none is
  when the queue is empty or the client is disconnected.
\<close>

theorem one_drain_while_undisturbed:
  assumes "undisturbed s"
  shows "(m_write_buffer (client s) \<noteq> [] \<and> m_is_connected (client s) \<longrightarrow>
            outstanding_drains s = 1) \<and>
         (m_write_buffer (client s) = [] \<or> \<not> m_is_connected (client s) \<longrightarrow>
            outstanding_drains s = 0)"
  using undisturbed_drain_inv[OF assms] by (auto simp: drain_inv_def outstanding_drains_def)

theorem one_drain_while_undisturbed_witness:
  "undisturbed sending_example \<and> m_write_buffer (client sending_example) \<noteq> [] \<and>
   m_is_connected (client sending_example) \<and> outstanding_drains sending_example = 1 \<and>
   undisturbed (disconnect sending_example) \<and>
   \<not> m_is_connected (client (disconnect sending_example)) \<and>
   outstanding_drains (disconnect sending_example) = 0"
proof -
  have c: "m_write_buffer (client sending_example) \<noteq> [] \<and>
           m_is_connected (client sending_example)"
    by (simp add: sending_example_eq)
  have r: "undisturbed (disconnect sending_example)"
    by (rule undisturbed.step[OF undisturbed_sending_example, of Disconnect None]) simp_all
  have d: "\<not> m_is_connected (client (disconnect sending_example))"
    by (simp add: disconnect_sending_example disconnected_example_def)
  from one_drain_while_undisturbed [OF undisturbed_sending_example]
    one_drain_while_undisturbed [OF r] c d r undisturbed_sending_example
  show ?thesis by simp
qed

subsection \<open>C6: the reactor's failure callback\<close>

text \<open>
  C6. When the reactor calls the failure callback on a connected client, the client is
  reset first: it is disconnected, its descriptor is closed and set to -1, and both
  buffers are empty. Only then is the disconnection handler called, once, with the
  client as it is after the reset. The calls made are the \<open>close\<close> and then the handler
  call, and nothing else; when \<open>connect\<close> was given no disconnection handler there is none
  to call.
\<close>

theorem failure_resets_then_calls_handler:
  assumes "reachable s" "m_is_connected (client s)"
  shows "\<not> m_is_connected (client (io_service_disconnection_handler s)) \<and>
         m_fd (client (io_service_disconnection_handler s)) = -1 \<and>
         m_write_buffer (client (io_service_disconnection_handler s)) = [] \<and>
         m_read_buffer (client (io_service_disconnection_handler s)) = [] \<and>
         trace (io_service_disconnection_handler s) =
           trace s @ OsClose (m_fd (client s)) #
             (case m_disconnection_handler (client s) of
                None \<Rightarrow> []
              | Some h \<Rightarrow>
                  [DisconnectionHandlerCall h (client (io_service_disconnection_handler s))])"
proof -
  from reachable_client_ok[OF assms(1)] assms(2) have "m_fd (client s) \<noteq> -1"
    by (auto simp: client_ok_def)
  then show ?thesis
    by (simp add: io_service_disconnection_handler_def reset_state_def clear_buffer_def
          emit_def Let_def split: option.splits)
qed

theorem failure_resets_then_calls_handler_witness:
  "reachable sending_example \<and> m_is_connected (client sending_example) \<and>
   client (io_service_disconnection_handler sending_example) =
     \<lparr>m_fd = -1, m_is_connected = False, m_receive_handler = Some until_quit,
      m_disconnection_handler = Some 7, m_read_buffer = [], m_write_buffer = []\<rparr> \<and>
   trace (io_service_disconnection_handler sending_example) =
     trace sending_example @
       [OsClose 3,
        DisconnectionHandlerCall 7
          \<lparr>m_fd = -1, m_is_connected = False, m_receive_handler = Some until_quit,
           m_disconnection_handler = Some 7, m_read_buffer = [], m_write_buffer = []\<rparr>]"
proof -
  have c: "m_is_connected (client sending_example)"
    by (simp add: sending_example_eq)
  have cl: "client (io_service_disconnection_handler sending_example) =
     \<lparr>m_fd = -1, m_is_connected = False, m_receive_handler = Some until_quit,
      m_disconnection_handler = Some 7, m_read_buffer = [], m_write_buffer = []\<rparr>"
    by (simp add: sending_example_eq eval_defs)
  have fd: "m_fd (client sending_example) = 3"
    and h: "m_disconnection_handler (client sending_example) = Some 7"
    by (simp_all add: sending_example_eq)
  from failure_resets_then_calls_handler [OF reachable_sending_example c]
  have "trace (io_service_disconnection_handler sending_example) =
     trace sending_example @
       [OsClose 3,
        DisconnectionHandlerCall 7 (client (io_service_disconnection_handler sending_example))]"
    by (simp add: fd h)
  with reachable_sending_example c cl show ?thesis by simp
qed

subsection \<open>C7: the receive handler's veto\<close>



subsection \<open>C8: disconnect is idempotent\<close>




end
